theory Spec2Isabelle
  imports Complex_Main "HOL-Library.Word"
begin

section \<open>JavaScript values\<close>

text \<open>
  The repository is one function, \<open>validateForm(formData)\<close>, of
  \<open>src/11-jugaad-form-validator.js\<close>. It receives an arbitrary JavaScript value, so
  the embedding starts with the values of the language.

  A JavaScript string is a sequence of 16-bit code units; \<open>length\<close>, indexing,
  \<open>indexOf\<close> and the relational operators all work on code units.
\<close>

type_synonym code_unit = "16 word"
type_synonym jsstring = "code_unit list"

text \<open>A string literal of the source (ASCII), as code units.\<close>

definition cu :: "char \<Rightarrow> code_unit" where
  "cu c = of_nat (of_char c)"

definition lit :: "string \<Rightarrow> jsstring" where
  "lit cs = map cu cs"

text \<open>
  A Number is a binary64 value. The finite ones are rationals; the two zeros are
  identified, since no operation of \<open>validateForm\<close> (comparison,
  \<open>Number.isInteger\<close>, \<open>Boolean\<close>) tells them apart.
\<close>

datatype number = NaN | PosInfinity | NegInfinity | Finite rat

text \<open>
  Functions and symbols carry no data that \<open>validateForm\<close> looks at. An object is
  its property table: the key and the value that a property read \<open>o.k\<close> yields
  (own or inherited data properties; accessors and proxies are not modelled).
\<close>

datatype jsvalue =
    Undefined
  | Null
  | Boolean bool
  | Number number
  | String jsstring
  | BigInt int
  | Symbol
  | Function
  | Array "jsvalue list"
  | Object "(string \<times> jsvalue) list"

fun typeof :: "jsvalue \<Rightarrow> string" where
  "typeof Undefined = ''undefined''"
| "typeof Null = ''object''"
| "typeof (Boolean b) = ''boolean''"
| "typeof (Number n) = ''number''"
| "typeof (String s) = ''string''"
| "typeof (BigInt i) = ''bigint''"
| "typeof Symbol = ''symbol''"
| "typeof Function = ''function''"
| "typeof (Array vs) = ''object''"
| "typeof (Object ps) = ''object''"

fun isArray :: "jsvalue \<Rightarrow> bool" where
  "isArray (Array vs) = True"
| "isArray v = False"

text \<open>\<open>formData.k\<close>: a property that is not there reads as \<open>undefined\<close>.\<close>

fun get_prop :: "jsvalue \<Rightarrow> string \<Rightarrow> jsvalue" where
  "get_prop (Object ps) k = (case map_of ps k of None \<Rightarrow> Undefined | Some v \<Rightarrow> v)"
| "get_prop v k = Undefined"

text \<open>\<open>Boolean(v)\<close>: the abstract operation ToBoolean.\<close>

fun to_boolean :: "jsvalue \<Rightarrow> bool" where
  "to_boolean Undefined = False"
| "to_boolean Null = False"
| "to_boolean (Boolean b) = b"
| "to_boolean (Number n) = (n \<noteq> NaN \<and> n \<noteq> Finite 0)"
| "to_boolean (String s) = (s \<noteq> [])"
| "to_boolean (BigInt i) = (i \<noteq> 0)"
| "to_boolean Symbol = True"
| "to_boolean Function = True"
| "to_boolean (Array vs) = True"
| "to_boolean (Object ps) = True"

section \<open>String operations\<close>

text \<open>
  \<open>trim\<close> removes WhiteSpace and LineTerminator code units from both ends: TAB, LF,
  VT, FF, CR, SPACE, NBSP, U+1680, U+2000 to U+200A, U+2028, U+2029, U+202F, U+205F,
  U+3000 and U+FEFF.
\<close>

definition is_white_space :: "code_unit \<Rightarrow> bool" where
  "is_white_space c \<longleftrightarrow>
     c \<in> {0x0009, 0x000A, 0x000B, 0x000C, 0x000D, 0x0020, 0x00A0, 0x1680,
          0x2000, 0x2001, 0x2002, 0x2003, 0x2004, 0x2005, 0x2006, 0x2007,
          0x2008, 0x2009, 0x200A, 0x2028, 0x2029, 0x202F, 0x205F, 0x3000, 0xFEFF}"

definition trim :: "jsstring \<Rightarrow> jsstring" where
  "trim s = rev (dropWhile is_white_space (rev (dropWhile is_white_space s)))"

text \<open>
  The relational operators on two strings compare them code unit by code unit; a proper
  prefix is smaller. \<open>validateForm\<close> applies them to the one-unit strings \<open>s[i]\<close>.
\<close>

fun str_lt :: "jsstring \<Rightarrow> jsstring \<Rightarrow> bool" where
  "str_lt [] [] = False"
| "str_lt [] (y # ys) = True"
| "str_lt (x # xs) [] = False"
| "str_lt (x # xs) (y # ys) = (x < y \<or> (x = y \<and> str_lt xs ys))"

text \<open>\<open>s[i]\<close> for an index inside the string: the string of that one code unit.\<close>

definition char_at :: "jsstring \<Rightarrow> nat \<Rightarrow> jsstring" where
  "char_at s i = [s ! i]"

definition startsWith :: "jsstring \<Rightarrow> jsstring \<Rightarrow> bool" where
  "startsWith s p = (take (length p) s = p)"

text \<open>
  \<open>s.indexOf(p, pos)\<close>: the least position from \<open>pos\<close> on where \<open>p\<close> occurs, or
  \<open>-1\<close>. \<open>search\<close> walks the rest of the string, \<open>k\<close> being the position of its head.
\<close>

fun search :: "jsstring \<Rightarrow> jsstring \<Rightarrow> nat \<Rightarrow> int" where
  "search p [] k = (if p = [] then int k else - 1)"
| "search p (x # xs) k = (if startsWith (x # xs) p then int k else search p xs (k + 1))"

definition indexOf :: "jsstring \<Rightarrow> jsstring \<Rightarrow> nat \<Rightarrow> int" where
  "indexOf s p pos = search p (drop pos s) (min pos (length s))"

text \<open>\<open>s.lastIndexOf(p)\<close>: the greatest position where \<open>p\<close> occurs, or \<open>-1\<close>.\<close>

fun search_last :: "jsstring \<Rightarrow> jsstring \<Rightarrow> nat \<Rightarrow> int \<Rightarrow> int" where
  "search_last p [] k found = (if p = [] then int k else found)"
| "search_last p (x # xs) k found =
     search_last p xs (k + 1) (if startsWith (x # xs) p then int k else found)"

definition lastIndexOf :: "jsstring \<Rightarrow> jsstring \<Rightarrow> int" where
  "lastIndexOf s p = search_last p s 0 (- 1)"

section \<open>Numbers\<close>

definition isNaN :: "number \<Rightarrow> bool" where
  "isNaN n \<longleftrightarrow> n = NaN"

fun isInteger :: "number \<Rightarrow> bool" where
  "isInteger (Finite q) = (of_int \<lfloor>q\<rfloor> = q)"
| "isInteger n = False"

text \<open>\<open>x < y\<close> on Numbers: false as soon as one side is \<open>NaN\<close>.\<close>

fun num_lt :: "number \<Rightarrow> number \<Rightarrow> bool" where
  "num_lt NaN y = False"
| "num_lt x NaN = False"
| "num_lt (Finite a) (Finite b) = (a < b)"
| "num_lt x NegInfinity = False"
| "num_lt NegInfinity y = True"
| "num_lt PosInfinity y = False"
| "num_lt x PosInfinity = True"

subsection \<open>Rounding to binary64\<close>

text \<open>
  \<open>Number(s)\<close> yields the binary64 value nearest to the mathematical value of the
  literal, ties to even. The mathematical value is a fraction \<open>a / b\<close> of integers,
  \<open>0 \<le> a\<close> and \<open>0 < b\<close>, with a sign apart.
\<close>

fun bit_length :: "int \<Rightarrow> nat" where
  "bit_length n = (if n \<le> 0 then 0 else Suc (bit_length (n div 2)))"

declare bit_length.simps [simp del]

definition round_half_even :: "int \<Rightarrow> int \<Rightarrow> int" where
  "round_half_even a b =
     (let q = a div b; r = a mod b
      in if 2 * r < b then q
         else if b < 2 * r then q + 1
         else if even q then q else q + 1)"

text \<open>\<open>2 ^ k \<le> a / b\<close>, for an integer \<open>k\<close> of either sign.\<close>

definition pow2_le :: "int \<Rightarrow> int \<Rightarrow> int \<Rightarrow> bool" where
  "pow2_le k a b = (if 0 \<le> k then b * 2 ^ nat k \<le> a else b \<le> a * 2 ^ nat (- k))"

definition signed :: "bool \<Rightarrow> int \<Rightarrow> int \<Rightarrow> number" where
  "signed neg p q = Finite (if neg then - (of_int p / of_int q) else of_int p / of_int q)"

text \<open>
  \<open>l\<close> is \<open>\<lfloor>log\<^sub>2 (a / b)\<rfloor>\<close> and \<open>2 ^ e\<close> the unit in the last place: the significand
  has 53 bits, and the least such exponent is \<open>-1074\<close> (subnormal numbers). A result of
  \<open>2 ^ 1024\<close> or more is an infinity.
\<close>

definition round_double :: "bool \<Rightarrow> int \<Rightarrow> int \<Rightarrow> number" where
  "round_double neg a b =
     (if a = 0 then Finite 0
      else
        let k = int (bit_length a) - int (bit_length b);
            l = (if pow2_le k a b then k else k - 1);
            e = max (l - 52) (- 1074)
        in if e < 0 then signed neg (round_half_even (a * 2 ^ nat (- e)) b) (2 ^ nat (- e))
           else
             let m = round_half_even a (b * 2 ^ nat e) * 2 ^ nat e
             in if 2 ^ 1024 \<le> m then (if neg then NegInfinity else PosInfinity)
                else signed neg m 1)"

subsection \<open>\<open>Number(s)\<close> on a string\<close>

text \<open>
  The abstract operation StringToNumber: white space around the literal is skipped, the
  empty literal is \<open>0\<close>; the literal is a binary, octal or hexadecimal integer
  (\<open>0b\<close>, \<open>0o\<close>, \<open>0x\<close>, no sign), or an optional sign followed by \<open>Infinity\<close> or by
  decimal digits with an optional fraction and an optional exponent. Whatever does not
  match as a whole is \<open>NaN\<close>.
\<close>

definition is_digit :: "code_unit \<Rightarrow> bool" where
  "is_digit c \<longleftrightarrow> cu CHR ''0'' \<le> c \<and> c \<le> cu CHR ''9''"

definition digit_value :: "code_unit \<Rightarrow> int option" where
  "digit_value c =
     (if is_digit c then Some (uint c - 48)
      else if cu CHR ''a'' \<le> c \<and> c \<le> cu CHR ''f'' then Some (uint c - 87)
      else if cu CHR ''A'' \<le> c \<and> c \<le> cu CHR ''F'' then Some (uint c - 55)
      else None)"

text \<open>The value of a non-empty string of digits of radix \<open>r\<close>; \<open>None\<close> if it is not one.\<close>

fun digits_from :: "int \<Rightarrow> int \<Rightarrow> jsstring \<Rightarrow> int option" where
  "digits_from r n [] = Some n"
| "digits_from r n (c # cs) =
     (case digit_value c of
        None \<Rightarrow> None
      | Some d \<Rightarrow> if d < r then digits_from r (n * r + d) cs else None)"

definition digits_value :: "int \<Rightarrow> jsstring \<Rightarrow> int option" where
  "digits_value r ds = (if ds = [] then None else digits_from r 0 ds)"

definition radix_of :: "code_unit \<Rightarrow> int option" where
  "radix_of c =
     (if c = cu CHR ''b'' \<or> c = cu CHR ''B'' then Some 2
      else if c = cu CHR ''o'' \<or> c = cu CHR ''O'' then Some 8
      else if c = cu CHR ''x'' \<or> c = cu CHR ''X'' then Some 16
      else None)"

fun radix_prefix :: "jsstring \<Rightarrow> (int \<times> jsstring) option" where
  "radix_prefix (z # c # ds) =
     (if z = cu CHR ''0'' then map_option (\<lambda>r. (r, ds)) (radix_of c) else None)"
| "radix_prefix t = None"

text \<open>The exponent part, \<open>e\<close> or \<open>E\<close>, an optional sign and digits; none is exponent 0.\<close>

fun exponent_part :: "jsstring \<Rightarrow> int option" where
  "exponent_part [] = Some 0"
| "exponent_part (c # r) =
     (if c = cu CHR ''e'' \<or> c = cu CHR ''E'' then
        (case r of
           [] \<Rightarrow> None
         | s # ds \<Rightarrow>
             if s = cu CHR ''+'' then digits_value 10 ds
             else if s = cu CHR ''-'' then map_option uminus (digits_value 10 ds)
             else digits_value 10 r)
      else None)"

text \<open>The digits \<open>ds\<close> read as an integer, times \<open>10 ^ p\<close>, rounded.\<close>

definition decimal_value :: "bool \<Rightarrow> jsstring \<Rightarrow> int \<Rightarrow> number" where
  "decimal_value neg ds p =
     (case digits_value 10 ds of
        None \<Rightarrow> NaN
      | Some n \<Rightarrow>
          if 0 \<le> p then round_double neg (n * 10 ^ nat p) 1
          else round_double neg n (10 ^ nat (- p)))"

definition str_unsigned_decimal :: "bool \<Rightarrow> jsstring \<Rightarrow> number" where
  "str_unsigned_decimal neg u =
     (if u = lit ''Infinity'' then (if neg then NegInfinity else PosInfinity)
      else
        let ip = takeWhile is_digit u;
            r1 = dropWhile is_digit u;
            dot = (r1 \<noteq> [] \<and> hd r1 = cu CHR ''.'');
            fp = (if dot then takeWhile is_digit (tl r1) else []);
            r2 = (if dot then dropWhile is_digit (tl r1) else r1)
        in if ip = [] \<and> fp = [] then NaN
           else (case exponent_part r2 of
                   None \<Rightarrow> NaN
                 | Some x \<Rightarrow> decimal_value neg (ip @ fp) (x - int (length fp))))"

definition str_numeric_literal :: "jsstring \<Rightarrow> number" where
  "str_numeric_literal t =
     (case radix_prefix t of
        Some (r, ds) \<Rightarrow>
          (case digits_value r ds of
             None \<Rightarrow> NaN
           | Some n \<Rightarrow> round_double False n 1)
      | None \<Rightarrow>
          (case t of
             [] \<Rightarrow> NaN
           | c # u \<Rightarrow>
               if c = cu CHR ''+'' then str_unsigned_decimal False u
               else if c = cu CHR ''-'' then str_unsigned_decimal True u
               else str_unsigned_decimal False t))"

definition string_to_number :: "jsstring \<Rightarrow> number" where
  "string_to_number s =
     (let t = trim s in if t = [] then Finite 0 else str_numeric_literal t)"

section \<open>The validator\<close>

text \<open>
  The \<open>errors\<close> object of the source: its properties in insertion order, each a field
  name with its message. \<open>errors.k = v\<close> overwrites the property \<open>k\<close> in place or
  appends it; \<open>Object.keys\<close> lists the names.
\<close>

type_synonym errors = "(string \<times> string) list"

fun assign :: "string \<Rightarrow> string \<Rightarrow> errors \<Rightarrow> errors" where
  "assign k v [] = [(k, v)]"
| "assign k v (p # ps) = (if fst p = k then (k, v) # ps else p # assign k v ps)"

definition keys :: "errors \<Rightarrow> string list" where
  "keys errs = map fst errs"

record validation_result =
  isValid :: bool
  errors :: errors

text \<open>1. name: a string whose trimmed length is 2 to 50.\<close>

definition validate_name :: "jsvalue \<Rightarrow> errors \<Rightarrow> errors" where
  "validate_name formData errs =
     (let name = get_prop formData ''name''
      in case name of
           String s \<Rightarrow>
             if length (trim s) < 2 \<or> length (trim s) > 50
             then assign ''name'' ''Name must be 2-50 characters'' errs
             else errs
         | _ \<Rightarrow> assign ''name'' ''Name must be 2-50 characters'' errs)"

text \<open>2. email: exactly one \<open>@\<close>, and a \<open>.\<close> after it.\<close>

definition email_invalid :: "jsvalue \<Rightarrow> bool" where
  "email_invalid email =
     (case email of
        String s \<Rightarrow>
          let atIndex = indexOf s (lit ''@'') 0;
              lastAtIndex = lastIndexOf s (lit ''@'')
          in if atIndex = - 1 \<or> atIndex \<noteq> lastAtIndex then True
             else
               let dotAfterAt = (indexOf s (lit ''.'') (nat (atIndex + 1)) \<noteq> - 1)
               in if \<not> dotAfterAt then True else False
      | _ \<Rightarrow> True)"

definition validate_email :: "jsvalue \<Rightarrow> errors \<Rightarrow> errors" where
  "validate_email formData errs =
     (let email = get_prop formData ''email''
      in if email_invalid email then assign ''email'' ''Invalid email format'' errs
         else errs)"

text \<open>
  The loop of the phone and of the pincode check,
  \<open>for (let i = 0; i < s.length; i++) { const ch = s[i]; if (ch < "0" || ch > "9")
  { errors.k = msg; break; } }\<close>, from index \<open>i\<close> on.
\<close>

function digit_loop :: "string \<Rightarrow> string \<Rightarrow> jsstring \<Rightarrow> nat \<Rightarrow> errors \<Rightarrow> errors" where
  "digit_loop k msg s i errs =
     (if i < length s then
        (let ch = char_at s i
         in if str_lt ch (lit ''0'') \<or> str_lt (lit ''9'') ch then assign k msg errs
            else digit_loop k msg s (i + 1) errs)
      else errs)"
  by pat_completeness auto
termination
  by (relation "measure (\<lambda>(k, msg, s, i, errs). length s - i)") auto

declare digit_loop.simps [simp del]

text \<open>3. phone: ten digits, the first one 6, 7, 8 or 9.\<close>

definition validate_phone :: "jsvalue \<Rightarrow> errors \<Rightarrow> errors" where
  "validate_phone formData errs =
     (let phone = get_prop formData ''phone''
      in case phone of
           String s \<Rightarrow>
             if length s \<noteq> 10 then assign ''phone'' ''Invalid Indian phone number'' errs
             else if char_at s 0 \<notin> set [lit ''6'', lit ''7'', lit ''8'', lit ''9'']
             then assign ''phone'' ''Invalid Indian phone number'' errs
             else digit_loop ''phone'' ''Invalid Indian phone number'' s 0 errs
         | _ \<Rightarrow> assign ''phone'' ''Invalid Indian phone number'' errs)"

text \<open>
  4. age: a Number, or a string that \<open>Number\<close> converts, integral and 16 to 100. The
  source stores the converted number back into its local \<open>age\<close>, which nothing reads
  afterwards.
\<close>

definition validate_age :: "jsvalue \<Rightarrow> errors \<Rightarrow> errors" where
  "validate_age formData errs =
     (let age = get_prop formData ''age''
      in case age of
           String s \<Rightarrow>
             if trim s = lit '''' then
               assign ''age'' ''Age must be an integer between 16 and 100'' errs
             else
               let parsed = string_to_number s
               in if isNaN parsed \<or> \<not> isInteger parsed
                     \<or> num_lt parsed (Finite 16) \<or> num_lt (Finite 100) parsed
                  then assign ''age'' ''Age must be an integer between 16 and 100'' errs
                  else errs
         | Number n \<Rightarrow>
             if \<not> isInteger n \<or> num_lt n (Finite 16) \<or> num_lt (Finite 100) n
             then assign ''age'' ''Age must be an integer between 16 and 100'' errs
             else errs
         | _ \<Rightarrow> assign ''age'' ''Age must be an integer between 16 and 100'' errs)"

text \<open>5. pincode: six digits, the first one not 0.\<close>

definition validate_pincode :: "jsvalue \<Rightarrow> errors \<Rightarrow> errors" where
  "validate_pincode formData errs =
     (let pincode = get_prop formData ''pincode''
      in case pincode of
           String s \<Rightarrow>
             if length s \<noteq> 6 \<or> startsWith s (lit ''0'')
             then assign ''pincode'' ''Invalid Indian pincode'' errs
             else digit_loop ''pincode'' ''Invalid Indian pincode'' s 0 errs
         | _ \<Rightarrow> assign ''pincode'' ''Invalid Indian pincode'' errs)"

text \<open>6. state: \<open>formData?.state ?? ""\<close> must be a string that is not blank.\<close>

definition nullish_coalesce :: "jsvalue \<Rightarrow> jsvalue \<Rightarrow> jsvalue" where
  "nullish_coalesce v d = (if v = Undefined \<or> v = Null then d else v)"

definition validate_state :: "jsvalue \<Rightarrow> errors \<Rightarrow> errors" where
  "validate_state formData errs =
     (let state = nullish_coalesce (get_prop formData ''state'') (String (lit ''''))
      in case state of
           String s \<Rightarrow>
             if trim s = lit '''' then assign ''state'' ''State is required'' errs else errs
         | _ \<Rightarrow> assign ''state'' ''State is required'' errs)"

text \<open>7. agreeTerms: truthy.\<close>

definition validate_agreeTerms :: "jsvalue \<Rightarrow> errors \<Rightarrow> errors" where
  "validate_agreeTerms formData errs =
     (if \<not> to_boolean (get_prop formData ''agreeTerms'')
      then assign ''agreeTerms'' ''Must agree to terms'' errs
      else errs)"

text \<open>
  \<open>validateForm\<close>: what is not a non-null, non-array object is refused at once; the
  seven checks then run in the order of the source, each on the \<open>errors\<close> the previous
  ones left.
\<close>

definition validateForm :: "jsvalue \<Rightarrow> validation_result" where
  "validateForm formData =
     (if typeof formData \<noteq> ''object'' \<or> formData = Null \<or> isArray formData
      then \<lparr>isValid = False, errors = [(''form'', ''Invalid form data'')]\<rparr>
      else
        let errs = [];
            errs = validate_name formData errs;
            errs = validate_email formData errs;
            errs = validate_phone formData errs;
            errs = validate_age formData errs;
            errs = validate_pincode formData errs;
            errs = validate_state formData errs;
            errs = validate_agreeTerms formData errs
        in \<lparr>isValid = (length (keys errs) = 0), errors = errs\<rparr>)"

section \<open>What the specification says of each field\<close>

text \<open>
  The message recorded under a key of the returned \<open>errors\<close>; \<open>None\<close> when the key is
  not there.
\<close>

definition lookup_error :: "validation_result \<Rightarrow> string \<Rightarrow> string option" where
  "lookup_error r k = map_of (errors r) k"

text \<open>name: a string whose length after trimming lies in 2 to 50.\<close>

definition name_well_formed :: "jsvalue \<Rightarrow> bool" where
  "name_well_formed v =
     (case v of String s \<Rightarrow> 2 \<le> length (trim s) \<and> length (trim s) \<le> 50 | _ \<Rightarrow> False)"

text \<open>email: a string with exactly one \<open>@\<close>, and a \<open>.\<close> somewhere after it.\<close>

definition email_well_formed :: "jsvalue \<Rightarrow> bool" where
  "email_well_formed v =
     (case v of
        String s \<Rightarrow>
          (\<exists>pre post. s = pre @ cu CHR ''@'' # post
             \<and> cu CHR ''@'' \<notin> set pre \<and> cu CHR ''@'' \<notin> set post
             \<and> cu CHR ''.'' \<in> set post)
      | _ \<Rightarrow> False)"

text \<open>phone: a string of ten ASCII digits, the first of them 6, 7, 8 or 9.\<close>

definition phone_well_formed :: "jsvalue \<Rightarrow> bool" where
  "phone_well_formed v =
     (case v of
        String s \<Rightarrow>
          length s = 10 \<and> list_all is_digit s
          \<and> hd s \<in> {cu CHR ''6'', cu CHR ''7'', cu CHR ''8'', cu CHR ''9''}
      | _ \<Rightarrow> False)"

text \<open>pincode: a string of six ASCII digits, the first of them not 0.\<close>

definition pincode_well_formed :: "jsvalue \<Rightarrow> bool" where
  "pincode_well_formed v =
     (case v of
        String s \<Rightarrow> length s = 6 \<and> list_all is_digit s \<and> hd s \<noteq> cu CHR ''0''
      | _ \<Rightarrow> False)"

text \<open>
  age: a Number, or a string taken through \<open>Number\<close>, that is a finite integer from 16
  to 100.
\<close>

definition integer_16_to_100 :: "number \<Rightarrow> bool" where
  "integer_16_to_100 n =
     (case n of Finite q \<Rightarrow> q \<in> \<int> \<and> 16 \<le> q \<and> q \<le> 100 | _ \<Rightarrow> False)"

definition age_acceptable :: "jsvalue \<Rightarrow> bool" where
  "age_acceptable v =
     (case v of
        Number n \<Rightarrow> integer_16_to_100 n
      | String s \<Rightarrow> integer_16_to_100 (string_to_number s)
      | _ \<Rightarrow> False)"

text \<open>
  state: the value of the field when it is there and not \<open>null\<close>, the empty string
  otherwise; it must be a string that is not blank.
\<close>

definition state_effective :: "(string \<times> jsvalue) list \<Rightarrow> jsvalue" where
  "state_effective ps =
     (case map_of ps ''state'' of
        None \<Rightarrow> String (lit '''')
      | Some Null \<Rightarrow> String (lit '''')
      | Some v \<Rightarrow> v)"

definition non_blank_string :: "jsvalue \<Rightarrow> bool" where
  "non_blank_string v = (case v of String s \<Rightarrow> trim s \<noteq> [] | _ \<Rightarrow> False)"

text \<open>agreeTerms: the falsy values that the documentation of the source lists.\<close>

definition falsy :: "jsvalue \<Rightarrow> bool" where
  "falsy v \<longleftrightarrow>
     v \<in> {Number (Finite 0), String (lit ''''), Null, Undefined, Number NaN, Boolean False}"

text \<open>
  A code unit after which a string that began with decimal digits cannot go on as a
  numeric literal: no digit, no \<open>.\<close>, no exponent or radix letter, no white space.
\<close>

definition non_numeric :: "code_unit \<Rightarrow> bool" where
  "non_numeric c \<longleftrightarrow>
     \<not> is_digit c \<and> \<not> is_white_space c \<and> c \<notin> set (lit ''.eExXoObB'')"

text \<open>The two examples of the documentation of \<open>validateForm\<close>.\<close>

definition sample_valid :: jsvalue where
  "sample_valid = Object
     [(''name'', String (lit ''Rahul Sharma'')), (''email'', String (lit ''rahul@gmail.com'')),
      (''phone'', String (lit ''9876543210'')), (''age'', Number (Finite 20)),
      (''pincode'', String (lit ''400001'')), (''state'', String (lit ''Maharashtra'')),
      (''agreeTerms'', Boolean True)]"

definition sample_invalid :: jsvalue where
  "sample_invalid = Object
     [(''name'', String (lit '''')), (''email'', String (lit ''bad-email'')),
      (''phone'', String (lit ''12345'')), (''age'', Number (Finite 10)),
      (''pincode'', String (lit ''0123'')), (''state'', Null),
      (''agreeTerms'', Boolean False)]"

section \<open>The \<open>errors\<close> object\<close>

lemma map_of_assign:
  "map_of (assign k v errs) k' = (if k' = k then Some v else map_of errs k')"
  by (induction errs) auto

lemma trim_Nil: "trim [] = []"
  by (simp add: trim_def)

text \<open>Each check writes under its own key only.\<close>

lemma map_of_validate_name:
  "k \<noteq> ''name'' \<Longrightarrow> map_of (validate_name fd errs) k = map_of errs k"
  by (simp add: validate_name_def Let_def map_of_assign split: jsvalue.splits)

lemma map_of_validate_email:
  "k \<noteq> ''email'' \<Longrightarrow> map_of (validate_email fd errs) k = map_of errs k"
  by (simp add: validate_email_def Let_def map_of_assign)

lemma digit_loop_cases:
  "digit_loop k msg s i errs = errs \<or> digit_loop k msg s i errs = assign k msg errs"
  by (induction k msg s i errs rule: digit_loop.induct)
     (subst (1 2) digit_loop.simps, simp add: Let_def)

lemma map_of_digit_loop:
  "k' \<noteq> k \<Longrightarrow> map_of (digit_loop k msg s i errs) k' = map_of errs k'"
  using digit_loop_cases [of k msg s i errs] by (auto simp: map_of_assign)

lemma map_of_validate_phone:
  "k \<noteq> ''phone'' \<Longrightarrow> map_of (validate_phone fd errs) k = map_of errs k"
  by (simp add: validate_phone_def Let_def map_of_assign map_of_digit_loop
      split: jsvalue.splits)

lemma map_of_validate_age:
  "k \<noteq> ''age'' \<Longrightarrow> map_of (validate_age fd errs) k = map_of errs k"
  by (simp add: validate_age_def Let_def map_of_assign split: jsvalue.splits)

lemma map_of_validate_pincode:
  "k \<noteq> ''pincode'' \<Longrightarrow> map_of (validate_pincode fd errs) k = map_of errs k"
  by (simp add: validate_pincode_def Let_def map_of_assign map_of_digit_loop
      split: jsvalue.splits)

lemma map_of_validate_state:
  "k \<noteq> ''state'' \<Longrightarrow> map_of (validate_state fd errs) k = map_of errs k"
  by (simp add: validate_state_def Let_def map_of_assign split: jsvalue.splits)

lemma map_of_validate_agreeTerms:
  "k \<noteq> ''agreeTerms'' \<Longrightarrow> map_of (validate_agreeTerms fd errs) k = map_of errs k"
  by (simp add: validate_agreeTerms_def map_of_assign)

lemmas map_of_validate =
  map_of_validate_name map_of_validate_email map_of_validate_phone map_of_validate_age
  map_of_validate_pincode map_of_validate_state map_of_validate_agreeTerms

lemma validateForm_Object:
  "errors (validateForm (Object ps)) =
     validate_agreeTerms (Object ps) (validate_state (Object ps) (validate_pincode (Object ps)
       (validate_age (Object ps) (validate_phone (Object ps) (validate_email (Object ps)
         (validate_name (Object ps) []))))))"
  by (simp add: validateForm_def Let_def)

text \<open>The two documented examples, run.\<close>

lemma sample_valid_result: "validateForm sample_valid = \<lparr>isValid = True, errors = []\<rparr>"
  by code_simp

lemma sample_invalid_result:
  "validateForm sample_invalid = \<lparr>isValid = False, errors =
      [(''name'', ''Name must be 2-50 characters''),
       (''email'', ''Invalid email format''),
       (''phone'', ''Invalid Indian phone number''),
       (''age'', ''Age must be an integer between 16 and 100''),
       (''pincode'', ''Invalid Indian pincode''),
       (''state'', ''State is required''),
       (''agreeTerms'', ''Must agree to terms'')]\<rparr>"
  by code_simp

section \<open>The verdict and the refusal of what is not a record\<close>

text \<open>
  C1. For every input value, \<open>isValid\<close> of the result is true exactly when the returned
  \<open>errors\<close> has no key, and false exactly when it has at least one.
\<close>

theorem isValid_iff_no_errors:
  "(isValid (validateForm v) \<longleftrightarrow> length (keys (errors (validateForm v))) = 0)
   \<and> (\<not> isValid (validateForm v) \<longleftrightarrow> 1 \<le> length (keys (errors (validateForm v))))"
  by (auto simp: validateForm_def Let_def keys_def Suc_le_eq)

theorem isValid_iff_no_errors_witness:
  "isValid (validateForm sample_valid) \<and> keys (errors (validateForm sample_valid)) = []
   \<and> \<not> isValid (validateForm sample_invalid)
   \<and> length (keys (errors (validateForm sample_invalid))) = 7"
  using isValid_iff_no_errors [of sample_valid] isValid_iff_no_errors [of sample_invalid]
  by (simp add: sample_valid_result sample_invalid_result keys_def)

text \<open>
  C2. For every input that is not a non-null, non-array object (\<open>undefined\<close>, \<open>null\<close>, a
  boolean, a number, a string, a bigint, a symbol, a function or an array) the result
  is exactly \<open>{isValid: false, errors: {form: "Invalid form data"}}\<close>: \<open>errors\<close> has the
  one key \<open>form\<close> and no key of a field, since no field is checked.
\<close>

theorem invalid_form_data:
  assumes "\<nexists>ps. v = Object ps"
  shows "validateForm v = \<lparr>isValid = False, errors = [(''form'', ''Invalid form data'')]\<rparr>"
  using assms by (cases v) (simp_all add: validateForm_def)

theorem invalid_form_data_witness:
  "validateForm Null = \<lparr>isValid = False, errors = [(''form'', ''Invalid form data'')]\<rparr>
   \<and> validateForm Undefined = \<lparr>isValid = False, errors = [(''form'', ''Invalid form data'')]\<rparr>
   \<and> validateForm (Number (Finite 7))
       = \<lparr>isValid = False, errors = [(''form'', ''Invalid form data'')]\<rparr>
   \<and> validateForm (String (lit ''name''))
       = \<lparr>isValid = False, errors = [(''form'', ''Invalid form data'')]\<rparr>
   \<and> validateForm (Boolean True)
       = \<lparr>isValid = False, errors = [(''form'', ''Invalid form data'')]\<rparr>
   \<and> validateForm (Array [sample_valid])
       = \<lparr>isValid = False, errors = [(''form'', ''Invalid form data'')]\<rparr>"
  using invalid_form_data [of Null] invalid_form_data [of Undefined]
    invalid_form_data [of "Number (Finite 7)"] invalid_form_data [of "String (lit ''name'')"]
    invalid_form_data [of "Boolean True"] invalid_form_data [of "Array [sample_valid]"]
  by simp

section \<open>name, state and agreeTerms\<close>

text \<open>
  C7. For every record input, \<open>errors\<close> has the key \<open>name\<close>, with the message
  "Name must be 2-50 characters", if and only if the name field is not a string whose
  length after trimming lies in 2 to 50, both bounds included.
\<close>

theorem name_error_iff:
  "lookup_error (validateForm (Object ps)) ''name'' =
     (if name_well_formed (get_prop (Object ps) ''name'') then None
      else Some ''Name must be 2-50 characters'')"
  by (auto simp: lookup_error_def validateForm_Object map_of_validate validate_name_def
      name_well_formed_def Let_def map_of_assign split: jsvalue.splits)

theorem name_error_iff_witness:
  "lookup_error (validateForm (Object [(''name'', String (lit '' Om ''))])) ''name'' = None
   \<and> lookup_error (validateForm (Object [(''name'', String (lit (replicate 50 CHR ''a'')))]))
       ''name'' = None
   \<and> lookup_error (validateForm (Object [(''name'', String (lit '' A ''))])) ''name''
       = Some ''Name must be 2-50 characters''
   \<and> lookup_error (validateForm (Object [(''name'', String (lit (replicate 51 CHR ''a'')))]))
       ''name'' = Some ''Name must be 2-50 characters''
   \<and> lookup_error (validateForm (Object [(''name'', Number (Finite 42))])) ''name''
       = Some ''Name must be 2-50 characters''"
proof -
  have "name_well_formed (String (lit '' Om ''))"
    "name_well_formed (String (lit (replicate 50 CHR ''a'')))"
    "\<not> name_well_formed (String (lit '' A ''))"
    "\<not> name_well_formed (String (lit (replicate 51 CHR ''a'')))"
    "\<not> name_well_formed (Number (Finite 42))"
    by code_simp+
  then show ?thesis
    using name_error_iff [of "[(''name'', String (lit '' Om ''))]"]
      name_error_iff [of "[(''name'', String (lit (replicate 50 CHR ''a'')))]"]
      name_error_iff [of "[(''name'', String (lit '' A ''))]"]
      name_error_iff [of "[(''name'', String (lit (replicate 51 CHR ''a'')))]"]
      name_error_iff [of "[(''name'', Number (Finite 42))]"]
    by simp
qed

text \<open>
  C8. For every record input, the effective value of the state field is the value of
  the field when it is present and not \<open>null\<close>, and the empty string when it is absent
  or \<open>null\<close>; \<open>errors\<close> has the key \<open>state\<close>, with the message "State is required", if
  and only if that effective value is not a string whose trimmed form is non-empty.
\<close>

theorem state_error_iff:
  "lookup_error (validateForm (Object ps)) ''state'' =
     (if non_blank_string (state_effective ps) then None else Some ''State is required'')"
  by (auto simp: lookup_error_def validateForm_Object map_of_validate validate_state_def
      non_blank_string_def state_effective_def nullish_coalesce_def lit_def Let_def
      map_of_assign trim_Nil split: jsvalue.splits option.splits)

theorem state_error_iff_witness:
  "lookup_error (validateForm (Object [(''state'', Null)])) ''state'' = Some ''State is required''
   \<and> lookup_error (validateForm (Object [])) ''state'' = Some ''State is required''
   \<and> lookup_error (validateForm (Object [(''state'', String (lit ''MH''))])) ''state'' = None"
proof -
  have "\<not> non_blank_string (state_effective [(''state'', Null)])"
    "\<not> non_blank_string (state_effective [])"
    "non_blank_string (state_effective [(''state'', String (lit ''MH''))])"
    by code_simp+
  then show ?thesis
    using state_error_iff [of "[(''state'', Null)]"] state_error_iff [of "[]"]
      state_error_iff [of "[(''state'', String (lit ''MH''))]"]
    by simp
qed

text \<open>
  C9, as stated: \<open>errors\<close> has the key \<open>agreeTerms\<close> if and only if the value of the field
  is one of \<open>0\<close>, \<open>""\<close>, \<open>null\<close>, \<open>undefined\<close>, \<open>NaN\<close>, \<open>false\<close>. The bigint zero \<open>0n\<close> is
  none of these, and \<open>Boolean(0n)\<close> is false: the record \<open>{agreeTerms: 0n}\<close> gets the
  error.
\<close>

theorem agreeTerms_bigint_counterexample:
  "lookup_error (validateForm (Object [(''agreeTerms'', BigInt 0)])) ''agreeTerms''
     = Some ''Must agree to terms''
   \<and> \<not> falsy (BigInt 0)"
  by code_simp

text \<open>
  C9, amended. For every record input, \<open>errors\<close> has the key \<open>agreeTerms\<close>, with the
  message "Must agree to terms", if and only if the value of the field is one of \<open>0\<close>
  (of either sign), \<open>""\<close>, \<open>null\<close>, \<open>undefined\<close>, \<open>NaN\<close>, \<open>false\<close> or the bigint \<open>0n\<close>;
  every other value, a blank string among them, is taken as agreement.
\<close>

theorem agreeTerms_error_iff:
  "lookup_error (validateForm (Object ps)) ''agreeTerms'' =
     (if falsy (get_prop (Object ps) ''agreeTerms'')
         \<or> get_prop (Object ps) ''agreeTerms'' = BigInt 0
      then Some ''Must agree to terms'' else None)"
proof -
  have "to_boolean v \<longleftrightarrow> \<not> (falsy v \<or> v = BigInt 0)" for v
    by (cases v) (auto simp: falsy_def lit_def)
  then show ?thesis
    by (simp add: lookup_error_def validateForm_Object validate_agreeTerms_def map_of_assign
        map_of_validate)
qed

theorem agreeTerms_error_iff_witness:
  "lookup_error (validateForm (Object [(''agreeTerms'', Number (Finite 0))])) ''agreeTerms''
     = Some ''Must agree to terms''
   \<and> lookup_error (validateForm (Object [(''agreeTerms'', String (lit ''''))])) ''agreeTerms''
     = Some ''Must agree to terms''
   \<and> lookup_error (validateForm (Object [(''agreeTerms'', String (lit ''yes''))])) ''agreeTerms''
     = None
   \<and> lookup_error (validateForm (Object [(''agreeTerms'', String (lit '' ''))])) ''agreeTerms''
     = None"
  using agreeTerms_error_iff [of "[(''agreeTerms'', Number (Finite 0))]"]
    agreeTerms_error_iff [of "[(''agreeTerms'', String (lit ''''))]"]
    agreeTerms_error_iff [of "[(''agreeTerms'', String (lit ''yes''))]"]
    agreeTerms_error_iff [of "[(''agreeTerms'', String (lit '' ''))]"]
  by (simp add: falsy_def lit_def cu_def)

section \<open>phone and pincode\<close>

text \<open>The test of the loop body fails exactly on the code units that are no digit.\<close>

lemma not_digit_iff:
  "str_lt (char_at s i) (lit ''0'') \<or> str_lt (lit ''9'') (char_at s i)
     \<longleftrightarrow> \<not> is_digit (s ! i)"
  by (auto simp: char_at_def lit_def is_digit_def)

text \<open>The loop leaves \<open>errors\<close> alone exactly when all that is left to scan is digits.\<close>

lemma digit_loop_eq:
  "digit_loop k msg s i errs =
     (if list_all is_digit (drop i s) then errs else assign k msg errs)"
proof (induction k msg s i errs rule: digit_loop.induct)
  case (1 k msg s i errs)
  show ?case
  proof (cases "i < length s")
    case True
    then have d: "drop i s = s ! i # drop (Suc i) s"
      by (simp add: Cons_nth_drop_Suc)
    show ?thesis
    proof (cases "is_digit (s ! i)")
      case True
      with \<open>i < length s\<close> "1.IH" [OF \<open>i < length s\<close> refl] d show ?thesis
        by (subst digit_loop.simps) (simp add: not_digit_iff Let_def)
    next
      case False
      with \<open>i < length s\<close> d show ?thesis
        by (subst digit_loop.simps) (simp add: not_digit_iff Let_def)
    qed
  next
    case False
    then show ?thesis
      by (subst digit_loop.simps) simp
  qed
qed

lemma char_at_0: "s \<noteq> [] \<Longrightarrow> char_at s 0 = [hd s]"
  by (cases s) (simp_all add: char_at_def)

lemma startsWith_single: "startsWith (x # xs) [c] \<longleftrightarrow> x = c"
  by (simp add: startsWith_def)

text \<open>
  C5. For every record input, \<open>errors\<close> has the key \<open>phone\<close>, with the message
  "Invalid Indian phone number", if and only if the phone field is not a string of
  exactly 10 characters, all of them ASCII digits, the first one 6, 7, 8 or 9.
\<close>

theorem phone_error_iff:
  "lookup_error (validateForm (Object ps)) ''phone'' =
     (if phone_well_formed (get_prop (Object ps) ''phone'') then None
      else Some ''Invalid Indian phone number'')"
proof -
  have "map_of (validate_phone (Object ps) errs) ''phone'' =
     (if phone_well_formed (get_prop (Object ps) ''phone'') then map_of errs ''phone''
      else Some ''Invalid Indian phone number'')" for errs
  proof (cases "get_prop (Object ps) ''phone''")
    case (String s)
    show ?thesis
    proof (cases "length s = 10")
      case True
      then have "s \<noteq> []" by auto
      with True String show ?thesis
        unfolding validate_phone_def phone_well_formed_def Let_def
        by (auto simp: char_at_0 lit_def digit_loop_eq map_of_assign)
    next
      case False
      with String show ?thesis
        unfolding validate_phone_def phone_well_formed_def Let_def
        by (simp add: map_of_assign)
    qed
  qed (simp_all add: validate_phone_def phone_well_formed_def map_of_assign)
  then show ?thesis
    by (simp add: lookup_error_def validateForm_Object map_of_validate)
qed

theorem phone_error_iff_witness:
  "lookup_error (validateForm (Object [(''phone'', String (lit ''9876543210''))])) ''phone''
     = None
   \<and> lookup_error (validateForm (Object [(''phone'', String (lit ''5876543210''))])) ''phone''
     = Some ''Invalid Indian phone number''
   \<and> lookup_error (validateForm (Object [(''phone'', String (lit ''98765432A0''))])) ''phone''
     = Some ''Invalid Indian phone number''"
proof -
  have "phone_well_formed (String (lit ''9876543210''))"
    "\<not> phone_well_formed (String (lit ''5876543210''))"
    "\<not> phone_well_formed (String (lit ''98765432A0''))"
    by code_simp+
  then show ?thesis
    using phone_error_iff [of "[(''phone'', String (lit ''9876543210''))]"]
      phone_error_iff [of "[(''phone'', String (lit ''5876543210''))]"]
      phone_error_iff [of "[(''phone'', String (lit ''98765432A0''))]"]
    by simp
qed

text \<open>
  C6. For every record input, \<open>errors\<close> has the key \<open>pincode\<close>, with the message
  "Invalid Indian pincode", if and only if the pincode field is not a string of exactly
  6 ASCII digits whose first character is not 0.
\<close>

theorem pincode_error_iff:
  "lookup_error (validateForm (Object ps)) ''pincode'' =
     (if pincode_well_formed (get_prop (Object ps) ''pincode'') then None
      else Some ''Invalid Indian pincode'')"
proof -
  have "map_of (validate_pincode (Object ps) errs) ''pincode'' =
     (if pincode_well_formed (get_prop (Object ps) ''pincode'') then map_of errs ''pincode''
      else Some ''Invalid Indian pincode'')" for errs
  proof (cases "get_prop (Object ps) ''pincode''")
    case (String s)
    show ?thesis
    proof (cases s)
      case Nil
      with String show ?thesis
        unfolding validate_pincode_def pincode_well_formed_def Let_def
        by (simp add: map_of_assign)
    next
      case (Cons x xs)
      with String show ?thesis
        unfolding validate_pincode_def pincode_well_formed_def Let_def
        by (auto simp: lit_def startsWith_single digit_loop_eq map_of_assign)
    qed
  qed (simp_all add: validate_pincode_def pincode_well_formed_def map_of_assign)
  then show ?thesis
    by (simp add: lookup_error_def validateForm_Object map_of_validate)
qed

theorem pincode_error_iff_witness:
  "lookup_error (validateForm (Object [(''pincode'', String (lit ''100000''))])) ''pincode''
     = None
   \<and> lookup_error (validateForm (Object [(''pincode'', String (lit ''000000''))])) ''pincode''
     = Some ''Invalid Indian pincode''
   \<and> lookup_error (validateForm (Object [(''pincode'', String (lit ''12345''))])) ''pincode''
     = Some ''Invalid Indian pincode''"
proof -
  have "pincode_well_formed (String (lit ''100000''))"
    "\<not> pincode_well_formed (String (lit ''000000''))"
    "\<not> pincode_well_formed (String (lit ''12345''))"
    by code_simp+
  then show ?thesis
    using pincode_error_iff [of "[(''pincode'', String (lit ''100000''))]"]
      pincode_error_iff [of "[(''pincode'', String (lit ''000000''))]"]
      pincode_error_iff [of "[(''pincode'', String (lit ''12345''))]"]
    by simp
qed

section \<open>email\<close>

text \<open>Searching for a single code unit, forwards and for the last occurrence.\<close>

lemma search_absent: "c \<notin> set xs \<Longrightarrow> search [c] xs k = - 1"
  by (induction xs arbitrary: k) (auto simp: startsWith_single)

lemma search_first:
  "c \<notin> set pre \<Longrightarrow> search [c] (pre @ c # post) k = int (k + length pre)"
  by (induction pre arbitrary: k) (auto simp: startsWith_single)

lemma search_last_absent: "c \<notin> set xs \<Longrightarrow> search_last [c] xs k found = found"
  by (induction xs arbitrary: k found) (auto simp: startsWith_single)

lemma search_last_last:
  "c \<notin> set post \<Longrightarrow> search_last [c] (pre @ c # post) k found = int (k + length pre)"
  by (induction pre arbitrary: k found) (auto simp: startsWith_single search_last_absent)

lemma takeWhile_until:
  "c \<notin> set pre \<Longrightarrow> takeWhile (\<lambda>x. x \<noteq> c) (pre @ c # post) = pre"
  by (induction pre) auto

lemma first_split_unique:
  assumes "pre @ c # post = pre' @ c # post'" "c \<notin> set pre" "c \<notin> set pre'"
  shows "pre = pre' \<and> post = post'"
proof -
  have "takeWhile (\<lambda>x. x \<noteq> c) (pre @ c # post) = pre"
    using assms(2) by (rule takeWhile_until)
  moreover have "takeWhile (\<lambda>x. x \<noteq> c) (pre' @ c # post') = pre'"
    using assms(3) by (rule takeWhile_until)
  ultimately have "pre = pre'" using assms(1) by simp
  with assms(1) show ?thesis by simp
qed

lemma search_found_iff: "search [c] xs k \<noteq> - 1 \<longleftrightarrow> c \<in> set xs"
proof (cases "c \<in> set xs")
  case True
  then obtain a b where "xs = a @ c # b" "c \<notin> set a"
    by (auto dest: split_list_first)
  with True show ?thesis by (simp add: search_first)
next
  case False
  then show ?thesis by (simp add: search_absent)
qed

text \<open>
  The check of the source, by the three cases: no \<open>@\<close>; a first \<open>@\<close> and another one
  after it; one \<open>@\<close> only, where the \<open>.\<close> is searched in what follows it.
\<close>

lemma email_invalid_iff: "email_invalid v \<longleftrightarrow> \<not> email_well_formed v"
proof (cases v)
  case (String s)
  let ?at = "cu CHR ''@''" and ?dot = "cu CHR ''.''"
  show ?thesis
  proof (cases "?at \<in> set s")
    case False
    then have "indexOf s (lit ''@'') 0 = - 1"
      by (simp add: indexOf_def lit_def search_absent)
    moreover have "\<not> email_well_formed v"
      using False String by (auto simp: email_well_formed_def)
    ultimately show ?thesis
      using String by (simp add: email_invalid_def)
  next
    case True
    then obtain pre post where s: "s = pre @ ?at # post" and pre: "?at \<notin> set pre"
      by (auto dest: split_list_first)
    have first: "indexOf s (lit ''@'') 0 = int (length pre)"
      using pre by (simp add: indexOf_def lit_def s search_first)
    show ?thesis
    proof (cases "?at \<in> set post")
      case True
      then obtain p2 q2 where post: "post = p2 @ ?at # q2" and q2: "?at \<notin> set q2"
        by (auto dest: split_list_last)
      have "s = (pre @ ?at # p2) @ ?at # q2"
        by (simp add: s post)
      then have "lastIndexOf s (lit ''@'') = int (length (pre @ ?at # p2))"
        using search_last_last [OF q2, of "pre @ ?at # p2" 0 "- 1"]
        by (simp add: lastIndexOf_def lit_def)
      with first have "indexOf s (lit ''@'') 0 \<noteq> lastIndexOf s (lit ''@'')"
        by simp
      moreover have "\<not> email_well_formed v"
      proof
        assume "email_well_formed v"
        then obtain pre' post' where "s = pre' @ ?at # post'" "?at \<notin> set pre'"
          "?at \<notin> set post'"
          using String by (auto simp: email_well_formed_def)
        with s pre have "post = post'"
          using first_split_unique [of pre ?at post pre' post'] by simp
        with True \<open>?at \<notin> set post'\<close> show False by simp
      qed
      ultimately show ?thesis
        using String by (simp add: email_invalid_def Let_def)
    next
      case False
      then have last: "lastIndexOf s (lit ''@'') = int (length pre)"
        using search_last_last [of ?at post pre 0 "- 1"]
        by (simp add: lastIndexOf_def lit_def s)
      have "indexOf s (lit ''.'') (Suc (length pre)) = search [?dot] post (Suc (length pre))"
        by (simp add: indexOf_def lit_def s)
      moreover have "nat (int (length pre) + 1) = Suc (length pre)"
        by simp
      ultimately have dot:
        "indexOf s (lit ''.'') (nat (int (length pre) + 1)) \<noteq> - 1 \<longleftrightarrow> ?dot \<in> set post"
        by (simp only: search_found_iff)
      have "email_well_formed v \<longleftrightarrow> ?dot \<in> set post"
      proof
        assume "email_well_formed v"
        then obtain pre' post' where "s = pre' @ ?at # post'" "?at \<notin> set pre'"
          "?dot \<in> set post'"
          using String by (auto simp: email_well_formed_def)
        with s pre have "post = post'"
          using first_split_unique [of pre ?at post pre' post'] by simp
        with \<open>?dot \<in> set post'\<close> show "?dot \<in> set post" by simp
      next
        assume "?dot \<in> set post"
        with s pre False show "email_well_formed v"
          using String by (auto simp: email_well_formed_def)
      qed
      with first last dot show ?thesis
        using String by (simp add: email_invalid_def Let_def)
    qed
  qed
qed (simp_all add: email_invalid_def email_well_formed_def)

text \<open>
  C4. For every record input, \<open>errors\<close> has the key \<open>email\<close>, with the message
  "Invalid email format", if and only if the email field is not a string that contains
  exactly one \<open>@\<close> and at least one \<open>.\<close> strictly after that \<open>@\<close>.
\<close>

theorem email_error_iff:
  "lookup_error (validateForm (Object ps)) ''email'' =
     (if email_well_formed (get_prop (Object ps) ''email'') then None
      else Some ''Invalid email format'')"
  by (simp add: lookup_error_def validateForm_Object map_of_validate validate_email_def
      Let_def map_of_assign email_invalid_iff)

theorem email_error_iff_witness:
  "email_well_formed (String (lit ''rahul@gmail.com''))
   \<and> \<not> email_well_formed (String (lit ''bad-email''))
   \<and> \<not> email_well_formed (String (lit ''a@b@c.d''))
   \<and> \<not> email_well_formed (String (lit ''a.b@c''))"
proof -
  have "lookup_error (validateForm (Object [(''email'', String (lit ''rahul@gmail.com''))]))
      ''email'' = None"
    "lookup_error (validateForm (Object [(''email'', String (lit ''bad-email''))]))
      ''email'' \<noteq> None"
    "lookup_error (validateForm (Object [(''email'', String (lit ''a@b@c.d''))]))
      ''email'' \<noteq> None"
    "lookup_error (validateForm (Object [(''email'', String (lit ''a.b@c''))]))
      ''email'' \<noteq> None"
    by code_simp+
  then show ?thesis
    using email_error_iff [of "[(''email'', String (lit ''rahul@gmail.com''))]"]
      email_error_iff [of "[(''email'', String (lit ''bad-email''))]"]
      email_error_iff [of "[(''email'', String (lit ''a@b@c.d''))]"]
      email_error_iff [of "[(''email'', String (lit ''a.b@c''))]"]
    by (simp split: if_splits)
qed

section \<open>age\<close>

text \<open>
  The three tests of the source on a Number, and what they amount to. \<open>NaN\<close> and the
  infinities are no integers for \<open>Number.isInteger\<close>.
\<close>

lemma range_check_iff:
  "\<not> isInteger n \<or> num_lt n (Finite 16) \<or> num_lt (Finite 100) n \<longleftrightarrow> \<not> integer_16_to_100 n"
  by (cases n) (auto simp: integer_16_to_100_def elim: Ints_cases)

lemma blank_to_number: "trim s = [] \<Longrightarrow> string_to_number s = Finite 0"
  by (simp add: string_to_number_def)

lemma blank_not_acceptable: "trim s = [] \<Longrightarrow> \<not> age_acceptable (String s)"
  by (simp add: age_acceptable_def blank_to_number integer_16_to_100_def)

lemma validate_age_eq:
  "map_of (validate_age (Object ps) errs) ''age'' =
     (if age_acceptable (get_prop (Object ps) ''age'') then map_of errs ''age''
      else Some ''Age must be an integer between 16 and 100'')"
proof (cases "get_prop (Object ps) ''age''")
  case (String s)
  show ?thesis
  proof (cases "trim s = []")
    case True
    with String blank_not_acceptable [OF True] show ?thesis
      by (simp add: validate_age_def lit_def map_of_assign)
  next
    case False
    have "isNaN n \<or> \<not> isInteger n \<or> num_lt n (Finite 16) \<or> num_lt (Finite 100) n
        \<longleftrightarrow> \<not> integer_16_to_100 n" for n
      using range_check_iff [of n] by (cases n) (auto simp: isNaN_def)
    with String False show ?thesis
      by (simp add: validate_age_def lit_def Let_def map_of_assign age_acceptable_def)
  qed
next
  case (Number n)
  then show ?thesis
    using range_check_iff [of n]
    by (simp add: validate_age_def map_of_assign age_acceptable_def)
qed (simp_all add: validate_age_def map_of_assign age_acceptable_def)

lemma lookup_age:
  "lookup_error (validateForm (Object ps)) ''age'' =
     (if age_acceptable (get_prop (Object ps) ''age'') then None
      else Some ''Age must be an integer between 16 and 100'')"
  by (simp add: lookup_error_def validateForm_Object map_of_validate validate_age_eq)

lemma to_number_examples:
  "string_to_number (lit ''16'') = Finite 16"
  "string_to_number (lit ''100'') = Finite 100"
  "string_to_number (lit ''22'') = Finite 22"
  "string_to_number (lit ''15'') = Finite 15"
  "string_to_number (lit ''101'') = Finite 101"
  by code_simp+

text \<open>
  C3. For every record input, \<open>errors\<close> has the key \<open>age\<close>, with the message "Age must be
  an integer between 16 and 100", if and only if the age field is not a number, or a
  string taken through \<open>Number\<close>, that is a finite integer from 16 to 100. In
  particular a string that is empty or all white space is not accepted, a value that is
  neither a string nor a number is not accepted, the numbers and the strings 16 and 100
  and the string "22" are accepted, and 15 and 101 are not.
\<close>

theorem age_error_iff:
  "lookup_error (validateForm (Object ps)) ''age'' =
     (if age_acceptable (get_prop (Object ps) ''age'') then None
      else Some ''Age must be an integer between 16 and 100'')
   \<and> (trim s = [] \<longrightarrow> \<not> age_acceptable (String s))
   \<and> (typeof v \<noteq> ''string'' \<and> typeof v \<noteq> ''number'' \<longrightarrow> \<not> age_acceptable v)
   \<and> age_acceptable (Number (Finite 16)) \<and> age_acceptable (Number (Finite 100))
   \<and> age_acceptable (String (lit ''16'')) \<and> age_acceptable (String (lit ''100''))
   \<and> age_acceptable (String (lit ''22''))
   \<and> \<not> age_acceptable (Number (Finite 15)) \<and> \<not> age_acceptable (Number (Finite 101))
   \<and> \<not> age_acceptable (String (lit ''15'')) \<and> \<not> age_acceptable (String (lit ''101''))"
proof -
  have "typeof v \<noteq> ''string'' \<and> typeof v \<noteq> ''number'' \<longrightarrow> \<not> age_acceptable v"
    by (cases v) (simp_all add: age_acceptable_def)
  then show ?thesis
    using lookup_age [of ps] blank_not_acceptable [of s]
    by (simp add: age_acceptable_def to_number_examples integer_16_to_100_def)
qed

theorem age_error_iff_witness:
  "lookup_error (validateForm (Object [(''age'', String (lit ''22''))])) ''age'' = None
   \<and> lookup_error (validateForm (Object [(''age'', Number (Finite 16))])) ''age'' = None
   \<and> lookup_error (validateForm (Object [(''age'', Number (Finite 101))])) ''age''
       = Some ''Age must be an integer between 16 and 100''
   \<and> lookup_error (validateForm (Object [(''age'', String (lit ''  ''))])) ''age''
       = Some ''Age must be an integer between 16 and 100''
   \<and> lookup_error (validateForm (Object [(''age'', Boolean True)])) ''age''
       = Some ''Age must be an integer between 16 and 100''"
proof -
  have blank: "trim (lit ''  '') = []"
    by code_simp
  show ?thesis
    using age_error_iff [of "[(''age'', String (lit ''22''))]" "lit ''  ''" "Boolean True"]
      age_error_iff [of "[(''age'', Number (Finite 16))]" "lit ''  ''" "Boolean True"]
      age_error_iff [of "[(''age'', Number (Finite 101))]" "lit ''  ''" "Boolean True"]
      age_error_iff [of "[(''age'', String (lit ''  ''))]" "lit ''  ''" "Boolean True"]
      age_error_iff [of "[(''age'', Boolean True)]" "lit ''  ''" "Boolean True"]
    by (simp add: blank)
qed

section \<open>age given as a string: the whole string is parsed\<close>

text \<open>White space around a string changes neither its trimmed form nor its number.\<close>

lemma dropWhile_all: "list_all P xs \<Longrightarrow> dropWhile P (xs @ ys) = dropWhile P ys"
  by (induction xs) auto

lemma trim_white_space:
  assumes "list_all is_white_space lead" "list_all is_white_space trail"
  shows "trim (lead @ t @ trail) = trim t"
proof -
  have l: "dropWhile is_white_space (lead @ t @ trail) = dropWhile is_white_space (t @ trail)"
    using assms(1) by (rule dropWhile_all)
  show ?thesis
  proof (cases "list_all is_white_space t")
    case True
    with assms(2) have "\<forall>x \<in> set (t @ trail). is_white_space x"
      by (auto simp: list_all_iff)
    then have "dropWhile is_white_space (t @ trail) = []"
      by (simp only: dropWhile_eq_Nil_conv)
    moreover from True have "dropWhile is_white_space t = []"
      by (simp only: dropWhile_eq_Nil_conv list_all_iff)
    ultimately show ?thesis
      using l by (simp only: trim_def rev.simps dropWhile.simps)
  next
    case False
    then have "dropWhile is_white_space (t @ trail) = dropWhile is_white_space t @ trail"
      by (auto simp: list_all_iff dropWhile_append1)
    moreover have "dropWhile is_white_space (rev trail @ xs) = dropWhile is_white_space xs" for xs
      using assms(2) by (simp add: dropWhile_all)
    ultimately show ?thesis
      using l by (simp add: trim_def)
  qed
qed

lemma to_number_white_space:
  "list_all is_white_space lead \<Longrightarrow> list_all is_white_space trail \<Longrightarrow>
   string_to_number (lead @ t @ trail) = string_to_number t"
  by (simp add: string_to_number_def trim_white_space)

lemma digit_not_white_space: "is_digit c \<Longrightarrow> \<not> is_white_space c"
  by (auto simp: is_digit_def is_white_space_def cu_def)

lemma digit_no_radix: "is_digit c \<Longrightarrow> radix_of c = None"
  by (auto simp: is_digit_def radix_of_def cu_def)

lemma digit_no_sign: "is_digit c \<Longrightarrow> c \<noteq> cu CHR ''+'' \<and> c \<noteq> cu CHR ''-''"
  by (auto simp: is_digit_def cu_def)

lemma trim_keeps_prefix:
  assumes "\<not> is_white_space d" "\<not> is_white_space c"
  shows "\<exists>rest'. trim (d # ds @ c # rest) = d # ds @ c # rest'"
proof -
  have "dropWhile is_white_space (rev rest @ c # rev ds @ [d])
      = dropWhile is_white_space (rev rest) @ c # rev ds @ [d]"
    using assms(2) by (rule dropWhile_append3)
  with assms(1) have "trim (d # ds @ c # rest)
      = d # ds @ c # rev (dropWhile is_white_space (rev rest))"
    by (simp add: trim_def)
  then show ?thesis by blast
qed

lemma junk_after_digits:
  assumes "ds \<noteq> []" "list_all is_digit ds" "non_numeric c"
  shows "string_to_number (ds @ c # rest) = NaN"
proof -
  from assms(1) obtain d ds' where ds: "ds = d # ds'"
    by (cases ds) auto
  with assms(2) have d: "is_digit d" and ds': "list_all is_digit ds'"
    by simp_all
  from assms(3) have c: "\<not> is_digit c" "\<not> is_white_space c" "c \<noteq> cu CHR ''.''"
    "c \<noteq> cu CHR ''e''" "c \<noteq> cu CHR ''E''" "radix_of c = None"
    by (auto simp: non_numeric_def lit_def radix_of_def)
  obtain rest' where t: "trim (ds @ c # rest) = d # ds' @ c # rest'"
    using trim_keeps_prefix [OF digit_not_white_space [OF d] c(2), of ds' rest] ds by auto
  let ?t = "d # ds' @ c # rest'"
  have rp: "radix_prefix ?t = None"
  proof (cases ds')
    case Nil
    with c(6) show ?thesis by simp
  next
    case (Cons x xs)
    with ds' have "is_digit x" by simp
    with Cons show ?thesis by (simp add: digit_no_radix)
  qed
  have inf: "?t \<noteq> lit ''Infinity''"
    using d by (auto simp: lit_def is_digit_def cu_def)
  have tw: "takeWhile is_digit ?t = d # ds'" "dropWhile is_digit ?t = c # rest'"
    using d ds' c(1) by (simp_all add: list_all_iff takeWhile_append2 dropWhile_append2)
  have "str_unsigned_decimal False ?t = NaN"
    unfolding str_unsigned_decimal_def Let_def tw
    using inf c(3,4,5) by simp
  with rp digit_no_sign [OF d] have "str_numeric_literal ?t = NaN"
    by (simp add: str_numeric_literal_def)
  with t show ?thesis
    by (simp add: string_to_number_def)
qed

text \<open>
  C10. When the age field is a string that is not blank, the whole string decides: the
  field is accepted exactly when \<open>Number\<close> of the string is an integer from 16 to 100.
  White space before and after a string does not change the verdict, so a valid numeral
  with white space around it is accepted; decimal digits followed by a character that
  cannot continue a numeric literal are refused with the age error, whatever comes after.
\<close>

theorem age_whole_string_parse:
  "(trim s \<noteq> [] \<longrightarrow>
      lookup_error (validateForm (Object ((''age'', String s) # ps))) ''age''
        = (if integer_16_to_100 (string_to_number s) then None
           else Some ''Age must be an integer between 16 and 100''))
   \<and> (list_all is_white_space lead \<and> list_all is_white_space trail \<longrightarrow>
      lookup_error (validateForm (Object ((''age'', String (lead @ t @ trail)) # ps))) ''age''
        = lookup_error (validateForm (Object ((''age'', String t) # ps))) ''age'')
   \<and> (ds \<noteq> [] \<and> list_all is_digit ds \<and> non_numeric c \<longrightarrow>
      lookup_error (validateForm (Object ((''age'', String (ds @ c # rest)) # ps))) ''age''
        = Some ''Age must be an integer between 16 and 100'')"
  by (simp add: lookup_age age_acceptable_def to_number_white_space junk_after_digits
      integer_16_to_100_def)

theorem age_whole_string_parse_witness:
  "lookup_error (validateForm (Object [(''age'', String (lit '' 22 ''))])) ''age'' = None
   \<and> lookup_error (validateForm (Object [(''age'', String (lit ''22abc''))])) ''age''
       = Some ''Age must be an integer between 16 and 100''"
proof -
  have ws: "list_all is_white_space (lit '' '')"
    and dg: "lit ''22'' \<noteq> [] \<and> list_all is_digit (lit ''22'') \<and> non_numeric (cu CHR ''a'')"
    and plain: "lookup_error (validateForm (Object [(''age'', String (lit ''22''))])) ''age'' = None"
    by code_simp+
  have eq: "lit '' '' @ lit ''22'' @ lit '' '' = lit '' 22 ''"
    "lit ''22'' @ cu CHR ''a'' # lit ''bc'' = lit ''22abc''"
    by (simp_all add: lit_def)
  show ?thesis
    using age_whole_string_parse [of "lit ''22''" "[]" "lit '' ''" "lit '' ''" "lit ''22''"
        "lit ''22''" "cu CHR ''a''" "lit ''bc''"] ws dg plain
    by (simp only: eq) simp
qed

end
